theory Spec2Isabelle
  imports Complex_Main
begin

section \<open>Money\<close>

text \<open>
  Every amount of the program is a Python \<^verbatim>\<open>float\<close>. The embedding reads an amount as the
  exact rational number it denotes, so \<^verbatim>\<open>+\<close>, \<^verbatim>\<open>-\<close>, \<^verbatim>\<open>*\<close> and \<^verbatim>\<open>/\<close> are the field operations
  of \<^typ>\<open>rat\<close>, and \<^verbatim>\<open>round(x, 2)\<close> is rounding to the nearest multiple of 1/100 with
  ties going to the even neighbour (what Python's \<^verbatim>\<open>round\<close> does on the exact value of its
  argument). Binary representation error of floats is outside this model.
\<close>

definition round_half_even :: "rat \<Rightarrow> int" where
  "round_half_even y =
     (let f = \<lfloor>y\<rfloor>; d = y - of_int f in
        if d < 1 / 2 then f
        else if 1 / 2 < d then f + 1
        else if even f then f else f + 1)"

definition round2 :: "rat \<Rightarrow> rat" where
  "round2 x = of_int (round_half_even (x * 100)) / 100"

section \<open>Data model (\<^verbatim>\<open>app/models/document.py\<close>)\<close>

datatype DocumentType =
  INVOICE | QUOTE | DELIVERY_NOTE | ORDER_CONFIRMATION | PARTIAL_INVOICE | CREDIT_NOTE | CANCELLATION

datatype DocumentStatus =
  DRAFT | SENT | PAID | PARTIALLY_PAID | CANCELLED | OVERDUE | ACCEPTED | REJECTED | CONVERTED

datatype PaymentMethod = BANK | CASH | PAYPAL

fun DOCUMENT_NUMBER_PREFIX :: "DocumentType \<Rightarrow> string" where
  "DOCUMENT_NUMBER_PREFIX INVOICE = ''INV''"
| "DOCUMENT_NUMBER_PREFIX QUOTE = ''QUO''"
| "DOCUMENT_NUMBER_PREFIX DELIVERY_NOTE = ''LS''"
| "DOCUMENT_NUMBER_PREFIX ORDER_CONFIRMATION = ''AB''"
| "DOCUMENT_NUMBER_PREFIX PARTIAL_INVOICE = ''TINV''"
| "DOCUMENT_NUMBER_PREFIX CREDIT_NOTE = ''GS''"
| "DOCUMENT_NUMBER_PREFIX CANCELLATION = ''ST''"

text \<open>
  A document key (the \<^verbatim>\<open>ObjectId\<close> of the store) is the position of the document in the
  collection: documents are only ever appended by the service, never deleted. A reference
  that Python holds as the empty string or \<^verbatim>\<open>None\<close> (both falsy) is \<^const>\<open>None\<close>. A date
  string \<^verbatim>\<open>YYYY-MM-DD\<close> is its day number; the empty date string is \<^const>\<open>None\<close>. A
  timestamp (\<^verbatim>\<open>now_utc()\<close>) is a natural number.
\<close>

type_synonym oid = nat
type_synonym date = "int option"

record line_item =
  product_id :: string
  name :: string
  description :: string
  quantity :: rat
  unit :: string
  unit_price :: rat
  vat_rate :: rat
  discount_percent :: rat
  discount_amount :: rat
  net_amount :: rat
  vat_amount :: rat
  gross_amount :: rat

record totals =
  net :: rat
  vat :: rat
  gross :: rat
  paid_amount :: rat
  remaining_amount :: rat

record payment =
  amount :: rat
  p_date :: int
  p_method :: PaymentMethod
  reference :: "string option"

record reminder =
  level :: int
  r_date :: int
  fee :: rat

record document =
  company_id :: string
  customer_id :: string
  document_type :: DocumentType
  document_number :: string
  status :: DocumentStatus
  items :: "line_item list"
  totals :: totals
  payments :: "payment list"
  reminders :: "reminder list"
  is_kleinunternehmer :: bool
  "notes" :: string
  payment_terms_days :: int
  issue_date :: date
  service_date :: date
  due_date :: date
  pdf_path :: string
  related_document_id :: "oid option"
  created_at :: nat
  updated_at :: nat

definition new_line_item ::
  "string \<Rightarrow> string \<Rightarrow> string \<Rightarrow> rat \<Rightarrow> string \<Rightarrow> rat \<Rightarrow> rat \<Rightarrow> rat \<Rightarrow> line_item" where
  "new_line_item pid nm descr qty un price vrate disc =
     (let subtotal = round2 (qty * price);
          discount_amount' = round2 (subtotal * (disc / 100));
          net_amount' = round2 (subtotal - discount_amount');
          vat_amount' = round2 (net_amount' * vrate);
          gross_amount' = round2 (net_amount' + vat_amount')
      in \<lparr> product_id = pid, name = nm, description = descr, quantity = qty, unit = un,
           unit_price = price, vat_rate = vrate, discount_percent = disc,
           discount_amount = discount_amount', net_amount = net_amount',
           vat_amount = vat_amount', gross_amount = gross_amount' \<rparr>)"

text \<open>The loop of \<^verbatim>\<open>new_document\<close> that zeroes the VAT of every item of a VAT-exempt tenant.\<close>

definition zero_vat :: "line_item \<Rightarrow> line_item" where
  "zero_vat item = item\<lparr> vat_amount := 0, gross_amount := net_amount item \<rparr>"

definition negative_type :: "DocumentType \<Rightarrow> bool" where
  "negative_type dt \<longleftrightarrow> dt = CREDIT_NOTE \<or> dt = CANCELLATION"

definition new_document ::
  "string \<Rightarrow> string \<Rightarrow> DocumentType \<Rightarrow> string \<Rightarrow> line_item list \<Rightarrow> bool \<Rightarrow> string \<Rightarrow> int \<Rightarrow>
   date \<Rightarrow> date \<Rightarrow> date \<Rightarrow> string \<Rightarrow> oid option \<Rightarrow> nat \<Rightarrow> document" where
  "new_document cid cust dt num its klein nts ptd idate sdate ddate pdf rel now_utc =
     (let total_net = round2 (sum_list (map net_amount its));
          total_vat = (if klein then 0 else round2 (sum_list (map vat_amount its)));
          total_gross = round2 (total_net + total_vat);
          its' = (if klein then map zero_vat its else its);
          total_net' = (if negative_type dt then - \<bar>total_net\<bar> else total_net);
          total_vat' = (if negative_type dt then - \<bar>total_vat\<bar> else total_vat);
          total_gross' = (if negative_type dt then - \<bar>total_gross\<bar> else total_gross)
      in \<lparr> company_id = cid, customer_id = cust, document_type = dt, document_number = num,
           status = DRAFT, items = its',
           totals = \<lparr> net = total_net', vat = total_vat', gross = total_gross',
                      paid_amount = 0, remaining_amount = total_gross' \<rparr>,
           payments = [], reminders = [], is_kleinunternehmer = klein, notes = nts,
           payment_terms_days = ptd, issue_date = idate, service_date = sdate,
           due_date = ddate, pdf_path = pdf, related_document_id = rel,
           created_at = now_utc, updated_at = now_utc \<rparr>)"

section \<open>Errors\<close>

text \<open>
  Every \<^verbatim>\<open>raise HTTPException(status_code, detail)\<close> of the service is a value
  \<open>HTTPException code detail\<close>; the detail keeps the values the message interpolates. The
  specification's error names are these raise sites: OverpaymentError is \<open>Payment_exceeds\<close>,
  CapExceeded is \<open>Partial_total_exceeds\<close>, LimitExceeded is \<open>Maximum_reminder_level\<close>,
  InvalidTransition is \<open>Cannot_transition\<close>.
\<close>

datatype detail =
    Customer_not_found
  | Document_not_found
  | Product_not_found string
  | Only_DRAFT_documents_can_be_edited
  | No_fields_to_update
  | Only_quotes_can_be_converted
  | Only_accepted_quotes_can_be_converted
  | Payments_only_allowed_on_invoices
  | Cannot_add_payment DocumentStatus
  | Payment_exceeds rat rat
  | Reminders_only_for_invoices
  | Cannot_add_reminder DocumentStatus
  | Maximum_reminder_level int
  | Only_invoices_can_be_cancelled
  | Document_already_cancelled
  | Credit_notes_can_only_reference_invoices
  | Cannot_credit_a_cancelled_document
  | Partial_invoices_only_from_invoices
  | Cannot_create_partial_from_cancelled
  | Partial_total_exceeds rat rat
  | Cannot_transition DocumentStatus DocumentStatus DocumentType

text \<open>
  \<open>TypeError\<close> is what Python raises when the service subscripts the \<^verbatim>\<open>None\<close> that a
  repository update returns for a key that is not in the collection.
\<close>

datatype error = HTTPException nat detail | TypeError

section \<open>Status transitions (\<^verbatim>\<open>_validate_status_transition\<close>)\<close>

fun invoice_transitions :: "DocumentStatus \<Rightarrow> DocumentStatus list" where
  "invoice_transitions DRAFT = [SENT, CANCELLED]"
| "invoice_transitions SENT = [PAID, PARTIALLY_PAID, OVERDUE, CANCELLED]"
| "invoice_transitions PARTIALLY_PAID = [PAID, OVERDUE, CANCELLED]"
| "invoice_transitions OVERDUE = [PAID, PARTIALLY_PAID, CANCELLED]"
| "invoice_transitions _ = []"

fun allowed :: "DocumentType \<Rightarrow> DocumentStatus \<Rightarrow> DocumentStatus list" where
  "allowed INVOICE current = invoice_transitions current"
| "allowed PARTIAL_INVOICE current = invoice_transitions current"
| "allowed QUOTE DRAFT = [SENT, CANCELLED]"
| "allowed QUOTE SENT = [ACCEPTED, REJECTED, CANCELLED]"
| "allowed QUOTE ACCEPTED = [CONVERTED]"
| "allowed DELIVERY_NOTE DRAFT = [SENT, CANCELLED]"
| "allowed ORDER_CONFIRMATION DRAFT = [SENT, CANCELLED]"
| "allowed CREDIT_NOTE DRAFT = [SENT, CANCELLED]"
| "allowed CANCELLATION DRAFT = [SENT]"
| "allowed _ _ = []"

definition validate_status_transition ::
  "DocumentType \<Rightarrow> DocumentStatus \<Rightarrow> DocumentStatus \<Rightarrow> error + unit" where
  "validate_status_transition doc_type current target =
     (let valid_targets = allowed doc_type current in
        if target \<notin> set valid_targets
        then Inl (HTTPException 400 (Cannot_transition current target doc_type))
        else Inr ())"


section \<open>Repositories (\<^verbatim>\<open>app/repositories\<close>)\<close>

text \<open>
  The collections are values: the documents in insertion order, the counters keyed by
  (company, counter type), the products, the customers (with the company that owns each)
  and the companies (with the VAT-exemption flag of each; a company document without the
  flag reads as \<^const>\<open>False\<close>, as \<^verbatim>\<open>company.get("is_kleinunternehmer", False)\<close> does).
\<close>

record product =
  p_company_id :: string
  p_name :: string
  p_description :: string
  p_unit :: string
  p_unit_price :: rat
  p_vat_rate :: rat

record db =
  documents :: "document list"
  counters :: "string \<times> string \<Rightarrow> nat option"
  products :: "string \<Rightarrow> product option"
  customers :: "string \<Rightarrow> string option"
  companies :: "string \<Rightarrow> bool option"

text \<open>
  What an operation reads from outside the store: the clock (\<^verbatim>\<open>now_utc()\<close>) and the current
  day (\<^verbatim>\<open>datetime.utcnow().strftime("%Y-%m-%d")\<close>). One operation sees one clock value.
\<close>

record env =
  now :: nat
  today :: int

definition find_by_id :: "document list \<Rightarrow> oid \<Rightarrow> document option" where
  "find_by_id docs i = (if i < length docs then Some (docs ! i) else None)"

definition insert_one :: "document list \<Rightarrow> document \<Rightarrow> document list \<times> oid" where
  "insert_one docs d = (docs @ [d], length docs)"

text \<open>\<^verbatim>\<open>update_one\<close>: the \<^verbatim>\<open>$set\<close> of the given fields is a function on the document.\<close>

definition update_one ::
  "document list \<Rightarrow> oid \<Rightarrow> (document \<Rightarrow> document) \<Rightarrow> nat \<Rightarrow> document list \<times> document option" where
  "update_one docs i update_data now_utc =
     (if i < length docs
      then (let d = (update_data (docs ! i))\<lparr> updated_at := now_utc \<rparr> in (docs[i := d], Some d))
      else (docs, None))"

text \<open>
  \<^verbatim>\<open>DocumentRepository.add_payment\<close>: the update \<^verbatim>\<open>$push\<close>es the payment, \<^verbatim>\<open>$inc\<close>rements the
  paid amount by the payment's amount and the remaining amount by its negation, and sets
  the modification time.
\<close>

definition push_payment :: "document \<Rightarrow> payment \<Rightarrow> nat \<Rightarrow> document" where
  "push_payment d p now_utc =
     d\<lparr> payments := payments d @ [p],
        totals := (totals d)\<lparr> paid_amount := paid_amount (totals d) + amount p,
                               remaining_amount := remaining_amount (totals d) + (- amount p) \<rparr>,
        updated_at := now_utc \<rparr>"

definition repo_add_payment ::
  "document list \<Rightarrow> oid \<Rightarrow> payment \<Rightarrow> nat \<Rightarrow> document list \<times> document option" where
  "repo_add_payment docs i p now_utc =
     (if i < length docs
      then (let d = push_payment (docs ! i) p now_utc in (docs[i := d], Some d))
      else (docs, None))"

text \<open>\<^verbatim>\<open>DocumentRepository.add_reminder\<close>: \<^verbatim>\<open>$push\<close> the reminder.\<close>

definition push_reminder :: "document \<Rightarrow> reminder \<Rightarrow> nat \<Rightarrow> document" where
  "push_reminder d r now_utc = d\<lparr> reminders := reminders d @ [r], updated_at := now_utc \<rparr>"

definition repo_add_reminder ::
  "document list \<Rightarrow> oid \<Rightarrow> reminder \<Rightarrow> nat \<Rightarrow> document list \<times> document option" where
  "repo_add_reminder docs i r now_utc =
     (if i < length docs
      then (let d = push_reminder (docs ! i) r now_utc in (docs[i := d], Some d))
      else (docs, None))"

text \<open>
  \<^verbatim>\<open>find_related_documents\<close>: the documents of the company that reference the given one,
  newest first (\<^verbatim>\<open>sort("created_at", -1)\<close>; documents created at the same instant come
  latest-inserted first), cut at 100 (\<^verbatim>\<open>to_list(length=100)\<close>).
\<close>

definition find_related_documents :: "document list \<Rightarrow> string \<Rightarrow> oid \<Rightarrow> document list" where
  "find_related_documents docs cid rid =
     take 100 (rev (sort_key created_at
       (filter (\<lambda>d. company_id d = cid \<and> related_document_id d = Some rid) docs)))"

text \<open>\<^verbatim>\<open>CounterRepository.get_next_number\<close>: increment with upsert, return the new value.\<close>

definition get_next_number ::
  "(string \<times> string \<Rightarrow> nat option) \<Rightarrow> string \<Rightarrow> string \<Rightarrow> (string \<times> string \<Rightarrow> nat option) \<times> nat" where
  "get_next_number cs cid counter_type =
     (let sequence = (case cs (cid, counter_type) of None \<Rightarrow> 1 | Some n \<Rightarrow> n + 1)
      in (cs((cid, counter_type) \<mapsto> sequence), sequence))"

section \<open>Service helpers (\<^verbatim>\<open>app/services/document_service.py\<close>)\<close>

definition digit_char :: "nat \<Rightarrow> char" where
  "digit_char n = ''0123456789'' ! n"

fun str_nat :: "nat \<Rightarrow> string" where
  "str_nat n = (if n < 10 then [digit_char n] else str_nat (n div 10) @ [digit_char (n mod 10)])"

declare str_nat.simps [simp del]

text \<open>The format \<^verbatim>\<open>{seq:06d}\<close>.\<close>

definition format_06d :: "nat \<Rightarrow> string" where
  "format_06d n = (let ds = str_nat n in replicate (6 - length ds) (CHR ''0'') @ ds)"

text \<open>\<^verbatim>\<open>f"document_{document_type.lower()}"\<close> on the seven document types.\<close>

fun counter_type_of :: "DocumentType \<Rightarrow> string" where
  "counter_type_of INVOICE = ''document_invoice''"
| "counter_type_of QUOTE = ''document_quote''"
| "counter_type_of DELIVERY_NOTE = ''document_delivery_note''"
| "counter_type_of ORDER_CONFIRMATION = ''document_order_confirmation''"
| "counter_type_of PARTIAL_INVOICE = ''document_partial_invoice''"
| "counter_type_of CREDIT_NOTE = ''document_credit_note''"
| "counter_type_of CANCELLATION = ''document_cancellation''"

definition generate_document_number ::
  "(string \<times> string \<Rightarrow> nat option) \<Rightarrow> string \<Rightarrow> DocumentType \<Rightarrow>
   (string \<times> string \<Rightarrow> nat option) \<times> string" where
  "generate_document_number cs cid dt =
     (let prefix = DOCUMENT_NUMBER_PREFIX dt;
          (cs', seq) = get_next_number cs cid (counter_type_of dt)
      in (cs', prefix @ ''-'' @ format_06d seq))"

definition calc_due_date :: "int \<Rightarrow> int \<Rightarrow> int" where
  "calc_due_date issue payment_terms = issue + payment_terms"

definition calc_totals :: "line_item list \<Rightarrow> bool \<Rightarrow> DocumentType \<Rightarrow> totals" where
  "calc_totals its klein dt =
     (let total_net = round2 (sum_list (map net_amount its));
          total_vat = (if klein then 0 else round2 (sum_list (map vat_amount its)));
          total_gross = round2 (total_net + total_vat);
          total_net' = (if negative_type dt then - \<bar>total_net\<bar> else total_net);
          total_vat' = (if negative_type dt then - \<bar>total_vat\<bar> else total_vat);
          total_gross' = (if negative_type dt then - \<bar>total_gross\<bar> else total_gross)
      in \<lparr> net = total_net', vat = total_vat', gross = total_gross',
           paid_amount = 0, remaining_amount = total_gross' \<rparr>)"

text \<open>Python's \<^verbatim>\<open>x or y\<close> on an optional string, an optional number and an optional date.\<close>

definition str_or :: "string option \<Rightarrow> string \<Rightarrow> string" where
  "str_or x y = (case x of None \<Rightarrow> y | Some s \<Rightarrow> if s = [] then y else s)"

definition num_or :: "rat option \<Rightarrow> rat \<Rightarrow> rat" where
  "num_or x y = (case x of None \<Rightarrow> y | Some v \<Rightarrow> if v = 0 then y else v)"

definition date_or :: "date \<Rightarrow> int \<Rightarrow> int" where
  "date_or x y = (case x of None \<Rightarrow> y | Some d \<Rightarrow> d)"

text \<open>The unit \<^verbatim>\<open>St\<close>u-umlaut\<^verbatim>\<open>ck\<close>, in UTF-8.\<close>

definition Stueck :: string where
  "Stueck = ''St'' @ [CHR 0xC3, CHR 0xBC] @ ''ck''"

record line_item_create =
  in_product_id :: "string option"
  in_quantity :: rat
  in_discount_percent :: rat
  in_name :: "string option"
  in_description :: "string option"
  in_unit :: "string option"
  in_unit_price :: "rat option"
  in_vat_rate :: "rat option"

text \<open>The body of the loop of \<^verbatim>\<open>_resolve_line_items\<close>.\<close>

definition resolve_line_item ::
  "(string \<Rightarrow> product option) \<Rightarrow> string \<Rightarrow> line_item_create \<Rightarrow> bool \<Rightarrow> error + line_item" where
  "resolve_line_item prods cid item_dict klein =
     (let pid = str_or (in_product_id item_dict) [] in
      case (if pid \<noteq> []
            then (case prods pid of
                    None \<Rightarrow> Inl (HTTPException 404 (Product_not_found pid))
                  | Some p \<Rightarrow> if p_company_id p \<noteq> cid
                              then Inl (HTTPException 404 (Product_not_found pid))
                              else Inr (Some p))
            else Inr None) of
        Inl e \<Rightarrow> Inl e
      | Inr found \<Rightarrow>
          (let (nm, descr, un, price, vrate) =
                 (case found of
                    Some p \<Rightarrow>
                      (str_or (in_name item_dict) (p_name p),
                       str_or (in_description item_dict) (p_description p),
                       str_or (in_unit item_dict) (p_unit p),
                       num_or (in_unit_price item_dict) (p_unit_price p),
                       (case in_vat_rate item_dict of Some v \<Rightarrow> v | None \<Rightarrow> p_vat_rate p))
                  | None \<Rightarrow>
                      (str_or (in_name item_dict) (str_or (in_description item_dict) ''Position''),
                       str_or (in_description item_dict) [],
                       str_or (in_unit item_dict) Stueck,
                       num_or (in_unit_price item_dict) 0,
                       (case in_vat_rate item_dict of Some v \<Rightarrow> v | None \<Rightarrow> 19 / 100)));
               disc = in_discount_percent item_dict;
               vrate' = (if klein then 0 else vrate)
           in Inr (new_line_item pid nm descr (in_quantity item_dict) un price vrate' disc)))"

fun resolve_line_items ::
  "(string \<Rightarrow> product option) \<Rightarrow> string \<Rightarrow> line_item_create list \<Rightarrow> bool \<Rightarrow> error + line_item list" where
  "resolve_line_items prods cid [] klein = Inr []"
| "resolve_line_items prods cid (item_dict # rest) klein =
     (case resolve_line_item prods cid item_dict klein of
        Inl e \<Rightarrow> Inl e
      | Inr line \<Rightarrow>
          (case resolve_line_items prods cid rest klein of
             Inl e \<Rightarrow> Inl e
           | Inr resolved \<Rightarrow> Inr (line # resolved)))"

definition company_is_kleinunternehmer :: "db \<Rightarrow> string \<Rightarrow> bool" where
  "company_is_kleinunternehmer s cid = (case companies s cid of None \<Rightarrow> False | Some k \<Rightarrow> k)"

definition get_document :: "document list \<Rightarrow> string \<Rightarrow> oid \<Rightarrow> error + document" where
  "get_document docs cid document_id =
     (case find_by_id docs document_id of
        None \<Rightarrow> Inl (HTTPException 404 Document_not_found)
      | Some doc \<Rightarrow> if company_id doc \<noteq> cid
                    then Inl (HTTPException 404 Document_not_found)
                    else Inr doc)"


section \<open>Service operations (\<^verbatim>\<open>DocumentService\<close>)\<close>

text \<open>
  An operation takes the store, the environment, the caller's company and its request, and
  returns the error it raises or the store it leaves with the document it returns. Every
  raise of an operation happens before its first write, so an error leaves the store as it
  was. The conversion of timestamps to ISO strings on the returned copy
  (\<^verbatim>\<open>_serialize_dates\<close>) is not part of the stored state and is left out.
\<close>

record document_create =
  dc_customer_id :: string
  dc_document_type :: DocumentType
  dc_items :: "line_item_create list"
  dc_notes :: string
  dc_payment_terms_days :: int
  dc_issue_date :: date
  dc_service_date :: date
  dc_due_date :: date
  dc_related_document_id :: "oid option"

definition create_document ::
  "db \<Rightarrow> env \<Rightarrow> string \<Rightarrow> document_create \<Rightarrow> error + (db \<times> oid \<times> document)" where
  "create_document s e cid data =
     (let dt = dc_document_type data; cust = dc_customer_id data in
      case customers s cust of
        None \<Rightarrow> Inl (HTTPException 404 Customer_not_found)
      | Some owner \<Rightarrow>
          if owner \<noteq> cid then Inl (HTTPException 404 Customer_not_found)
          else
            (let klein = company_is_kleinunternehmer s cid in
             case resolve_line_items (products s) cid (dc_items data) klein of
               Inl err \<Rightarrow> Inl err
             | Inr resolved_items \<Rightarrow>
                 (let (cs', num) = generate_document_number (counters s) cid dt;
                      issue = date_or (dc_issue_date data) (today e);
                      service = dc_service_date data;
                      ptd = dc_payment_terms_days data;
                      due = date_or (dc_due_date data) (calc_due_date issue ptd);
                      doc = new_document cid cust dt num resolved_items klein (dc_notes data) ptd
                              (Some issue) service (Some due) [] (dc_related_document_id data) (now e);
                      (docs', doc_id) = insert_one (documents s) doc
                  in Inr (s\<lparr> documents := docs', counters := cs' \<rparr>, doc_id, doc))))"

record document_update =
  du_customer_id :: "string option"
  du_items :: "line_item_create list option"
  du_notes :: "string option"
  du_payment_terms_days :: "int option"
  du_issue_date :: "date option"
  du_service_date :: "date option"
  du_due_date :: "date option"

text \<open>The dictionary \<^verbatim>\<open>update_fields\<close> is the list of its field assignments.\<close>

definition field_update :: "'a option \<Rightarrow> ('a \<Rightarrow> document \<Rightarrow> document) \<Rightarrow> (document \<Rightarrow> document) list" where
  "field_update x f = (case x of None \<Rightarrow> [] | Some v \<Rightarrow> [f v])"

definition update_document ::
  "db \<Rightarrow> env \<Rightarrow> string \<Rightarrow> oid \<Rightarrow> document_update \<Rightarrow> error + (db \<times> document)" where
  "update_document s e cid document_id data =
     (case get_document (documents s) cid document_id of
        Inl err \<Rightarrow> Inl err
      | Inr doc \<Rightarrow>
          if status doc \<noteq> DRAFT then Inl (HTTPException 400 Only_DRAFT_documents_can_be_edited)
          else
            (case (case du_items data of
                     None \<Rightarrow> Inr []
                   | Some its \<Rightarrow>
                       (let is_klein = company_is_kleinunternehmer s cid in
                        case resolve_line_items (products s) cid its is_klein of
                          Inl err \<Rightarrow> Inl err
                        | Inr resolved \<Rightarrow>
                            Inr [\<lambda>d. d\<lparr> items := resolved \<rparr>,
                                 \<lambda>d. d\<lparr> totals := calc_totals resolved is_klein (document_type doc) \<rparr>])) of
               Inl err \<Rightarrow> Inl err
             | Inr item_fields \<Rightarrow>
                 (let update_fields = item_fields
                        @ field_update (du_customer_id data) (\<lambda>v d. d\<lparr> customer_id := v \<rparr>)
                        @ field_update (du_notes data) (\<lambda>v d. d\<lparr> notes := v \<rparr>)
                        @ field_update (du_payment_terms_days data) (\<lambda>v d. d\<lparr> payment_terms_days := v \<rparr>)
                        @ field_update (du_issue_date data) (\<lambda>v d. d\<lparr> issue_date := v \<rparr>)
                        @ field_update (du_service_date data) (\<lambda>v d. d\<lparr> service_date := v \<rparr>)
                        @ field_update (du_due_date data) (\<lambda>v d. d\<lparr> due_date := v \<rparr>)
                  in if List.null update_fields then Inl (HTTPException 400 No_fields_to_update)
                     else
                       (case update_one (documents s) document_id
                               (\<lambda>d. fold (\<lambda>f. f) update_fields d) (now e) of
                          (docs', None) \<Rightarrow> Inl TypeError
                        | (docs', Some updated) \<Rightarrow> Inr (s\<lparr> documents := docs' \<rparr>, updated)))))"

text \<open>The notes prefix \<^verbatim>\<open>Auftragsbest\<close>a-umlaut\<^verbatim>\<open>tigung zu Angebot\<close>, in UTF-8.\<close>

definition Auftragsbestaetigung_zu_Angebot :: string where
  "Auftragsbestaetigung_zu_Angebot = ''Auftragsbest'' @ [CHR 0xC3, CHR 0xA4] @ ''tigung zu Angebot ''"

definition create_order_confirmation_from_quote ::
  "db \<Rightarrow> env \<Rightarrow> string \<Rightarrow> oid \<Rightarrow> document \<Rightarrow> db" where
  "create_order_confirmation_from_quote s e cid quote_id quote =
     (let items_copy = items quote;
          (cs', order_number) = generate_document_number (counters s) cid ORDER_CONFIRMATION;
          issue = date_or (issue_date quote) (today e);
          service = service_date quote;
          ptd = payment_terms_days quote;
          due = date_or (due_date quote) (calc_due_date issue ptd);
          order_doc = new_document cid (customer_id quote) ORDER_CONFIRMATION order_number items_copy
                        (is_kleinunternehmer quote)
                        (Auftragsbestaetigung_zu_Angebot @ document_number quote)
                        ptd (Some issue) service (Some due) [] (Some quote_id) (now e);
          (docs', order_id) = insert_one (documents s) order_doc
      in s\<lparr> documents := docs', counters := cs' \<rparr>)"

definition update_status ::
  "db \<Rightarrow> env \<Rightarrow> string \<Rightarrow> oid \<Rightarrow> DocumentStatus \<Rightarrow> error + (db \<times> document)" where
  "update_status s e cid document_id new_status =
     (case get_document (documents s) cid document_id of
        Inl err \<Rightarrow> Inl err
      | Inr doc \<Rightarrow>
          (case validate_status_transition (document_type doc) (status doc) new_status of
             Inl err \<Rightarrow> Inl err
           | Inr _ \<Rightarrow>
               (case update_one (documents s) document_id (\<lambda>d. d\<lparr> status := new_status \<rparr>) (now e) of
                  (docs1, None) \<Rightarrow> Inl TypeError
                | (docs1, Some updated) \<Rightarrow>
                    (let s1 = s\<lparr> documents := docs1 \<rparr>;
                         s2 = (if document_type doc = QUOTE \<and> new_status = ACCEPTED
                               then create_order_confirmation_from_quote s1 e cid document_id updated
                               else s1)
                     in Inr (s2, updated)))))"

record convert_quote_request =
  cq_payment_terms_days :: int
  cq_issue_date :: date
  cq_due_date :: date

definition convert_quote_to_invoice ::
  "db \<Rightarrow> env \<Rightarrow> string \<Rightarrow> oid \<Rightarrow> convert_quote_request \<Rightarrow> error + (db \<times> oid \<times> document)" where
  "convert_quote_to_invoice s e cid quote_id data =
     (case get_document (documents s) cid quote_id of
        Inl err \<Rightarrow> Inl err
      | Inr quote \<Rightarrow>
          if document_type quote \<noteq> QUOTE then Inl (HTTPException 400 Only_quotes_can_be_converted)
          else if status quote \<noteq> ACCEPTED
          then Inl (HTTPException 400 Only_accepted_quotes_can_be_converted)
          else
            (let (cs', invoice_number) = generate_document_number (counters s) cid INVOICE;
                 issue = date_or (cq_issue_date data) (today e);
                 ptd = cq_payment_terms_days data;
                 due = date_or (cq_due_date data) (calc_due_date issue ptd);
                 invoice_doc = new_document cid (customer_id quote) INVOICE invoice_number (items quote)
                                 (is_kleinunternehmer quote) (notes quote) ptd
                                 (Some issue) None (Some due) [] (Some quote_id) (now e);
                 (docs1, invoice_id) = insert_one (documents s) invoice_doc;
                 docs2 = fst (update_one docs1 quote_id (\<lambda>d. d\<lparr> status := CONVERTED \<rparr>) (now e))
             in Inr (s\<lparr> documents := docs2, counters := cs' \<rparr>, invoice_id, invoice_doc)))"


subsection \<open>Payments\<close>

record payment_create =
  pc_amount :: rat
  pc_date :: date
  pc_method :: PaymentMethod

text \<open>
  The status that follows a payment, from the paid amount and the gross total of the
  updated document (the \<^verbatim>\<open>if / elif / else\<close> after the repository call).
\<close>

definition status_after_payment :: "document \<Rightarrow> DocumentStatus" where
  "status_after_payment updated =
     (let new_paid = paid_amount (totals updated);
          gross' = \<bar>gross (totals updated)\<bar>
      in if \<bar>new_paid - gross'\<bar> < 1 / 100 then PAID
         else if 0 < new_paid then PARTIALLY_PAID
         else status updated)"

text \<open>
  The body of the \<^verbatim>\<open>try\<close> block of \<^verbatim>\<open>add_payment\<close>: the payment of a paid partial invoice is
  recorded on the parent invoice as well.
\<close>

definition sync_parent ::
  "document list \<Rightarrow> env \<Rightarrow> string \<Rightarrow> oid \<Rightarrow> document \<Rightarrow> int \<Rightarrow> PaymentMethod \<Rightarrow>
   error + document list" where
  "sync_parent docs e cid parent_id updated payment_date meth =
     (case get_document docs cid parent_id of
        Inl err \<Rightarrow> Inl err
      | Inr parent \<Rightarrow>
          if document_type parent = INVOICE
          then
            (let partial_gross = \<bar>gross (totals updated)\<bar>;
                 parent_payment = \<lparr> amount = partial_gross, p_date = payment_date, p_method = meth,
                                    reference = Some (''Abschlagsrechnung '' @ document_number updated) \<rparr>
             in case repo_add_payment docs parent_id parent_payment (now e) of
                  (docs1, None) \<Rightarrow> Inl TypeError
                | (docs1, Some parent_updated) \<Rightarrow>
                    (let parent_paid = paid_amount (totals parent_updated);
                         parent_gross = \<bar>gross (totals parent_updated)\<bar>
                     in if \<bar>parent_paid - parent_gross\<bar> < 1 / 100
                        then Inr (fst (update_one docs1 parent_id (\<lambda>d. d\<lparr> status := PAID \<rparr>) (now e)))
                        else if 0 < parent_paid
                        then Inr (fst (update_one docs1 parent_id
                                         (\<lambda>d. d\<lparr> status := PARTIALLY_PAID \<rparr>) (now e)))
                        else Inr docs1))
          else Inr docs)"

definition add_payment ::
  "db \<Rightarrow> env \<Rightarrow> string \<Rightarrow> oid \<Rightarrow> payment_create \<Rightarrow> error + (db \<times> document)" where
  "add_payment s e cid document_id data =
     (case get_document (documents s) cid document_id of
        Inl err \<Rightarrow> Inl err
      | Inr doc \<Rightarrow>
          if document_type doc \<noteq> INVOICE \<and> document_type doc \<noteq> PARTIAL_INVOICE
          then Inl (HTTPException 400 Payments_only_allowed_on_invoices)
          else if status doc = CANCELLED \<or> status doc = PAID \<or> status doc = DRAFT
          then Inl (HTTPException 400 (Cannot_add_payment (status doc)))
          else
            (let remaining = remaining_amount (totals doc);
                 amount' = pc_amount data
             in if remaining + 1 / 100 < amount'
                then Inl (HTTPException 400 (Payment_exceeds amount' remaining))
                else
                  (let payment_date = date_or (pc_date data) (today e);
                       payment_record = \<lparr> amount = amount', p_date = payment_date,
                                          p_method = pc_method data, reference = None \<rparr>
                   in case repo_add_payment (documents s) document_id payment_record (now e) of
                        (docs1, None) \<Rightarrow> Inl TypeError
                      | (docs1, Some updated1) \<Rightarrow>
                          (let new_status = status_after_payment updated1 in
                           case (if new_status \<noteq> status updated1
                                 then update_one docs1 document_id
                                        (\<lambda>d. d\<lparr> status := new_status \<rparr>) (now e)
                                 else (docs1, Some updated1)) of
                             (docs2, None) \<Rightarrow> Inl TypeError
                           | (docs2, Some updated) \<Rightarrow>
                               (case (if document_type updated = PARTIAL_INVOICE \<and> new_status = PAID
                                      then related_document_id updated else None) of
                                  None \<Rightarrow> Inr (s\<lparr> documents := docs2 \<rparr>, updated)
                                | Some parent_id \<Rightarrow>
                                    (case sync_parent docs2 e cid parent_id updated payment_date
                                            (pc_method data) of
                                       Inr docs3 \<Rightarrow> Inr (s\<lparr> documents := docs3 \<rparr>, updated)
                                     | Inl (HTTPException code msg) \<Rightarrow>
                                         Inr (s\<lparr> documents := docs2 \<rparr>, updated)
                                     | Inl TypeError \<Rightarrow> Inl TypeError))))))"

subsection \<open>Reminders\<close>

definition MAX_REMINDER_LEVEL :: int where
  "MAX_REMINDER_LEVEL = 3"

record reminder_create =
  rc_fee :: rat

definition add_reminder ::
  "db \<Rightarrow> env \<Rightarrow> string \<Rightarrow> oid \<Rightarrow> reminder_create \<Rightarrow> error + (db \<times> document)" where
  "add_reminder s e cid document_id data =
     (case get_document (documents s) cid document_id of
        Inl err \<Rightarrow> Inl err
      | Inr doc \<Rightarrow>
          if document_type doc \<noteq> INVOICE \<and> document_type doc \<noteq> PARTIAL_INVOICE
          then Inl (HTTPException 400 Reminders_only_for_invoices)
          else if status doc \<noteq> SENT \<and> status doc \<noteq> OVERDUE \<and> status doc \<noteq> PARTIALLY_PAID
          then Inl (HTTPException 400 (Cannot_add_reminder (status doc)))
          else
            (let existing_reminders = reminders doc;
                 next_level = int (length existing_reminders) + 1
             in if MAX_REMINDER_LEVEL < next_level
                then Inl (HTTPException 400 (Maximum_reminder_level MAX_REMINDER_LEVEL))
                else
                  (let reminder_record = \<lparr> level = next_level, r_date = today e, fee = rc_fee data \<rparr>
                   in case repo_add_reminder (documents s) document_id reminder_record (now e) of
                        (docs1, None) \<Rightarrow> Inl TypeError
                      | (docs1, Some updated1) \<Rightarrow>
                          (case (if status updated1 \<noteq> OVERDUE \<and> status updated1 \<noteq> PARTIALLY_PAID
                                 then update_one docs1 document_id
                                        (\<lambda>d. d\<lparr> status := OVERDUE \<rparr>) (now e)
                                 else (docs1, Some updated1)) of
                             (docs2, None) \<Rightarrow> Inl TypeError
                           | (docs2, Some updated) \<Rightarrow> Inr (s\<lparr> documents := docs2 \<rparr>, updated)))))"

subsection \<open>Cancellation and credit note\<close>

definition cancel_document :: "db \<Rightarrow> env \<Rightarrow> string \<Rightarrow> oid \<Rightarrow> error + (db \<times> oid \<times> document)" where
  "cancel_document s e cid document_id =
     (case get_document (documents s) cid document_id of
        Inl err \<Rightarrow> Inl err
      | Inr doc \<Rightarrow>
          if document_type doc \<noteq> INVOICE \<and> document_type doc \<noteq> PARTIAL_INVOICE
          then Inl (HTTPException 400 Only_invoices_can_be_cancelled)
          else if status doc = CANCELLED then Inl (HTTPException 400 Document_already_cancelled)
          else
            (let docs1 = fst (update_one (documents s) document_id
                                (\<lambda>d. d\<lparr> status := CANCELLED \<rparr>) (now e));
                 (cs', cancel_number) = generate_document_number (counters s) cid CANCELLATION;
                 cancel_doc = new_document cid (customer_id doc) CANCELLATION cancel_number (items doc)
                                (is_kleinunternehmer doc) (''Stornierung zu '' @ document_number doc) 14
                                (Some (today e)) None (Some (today e)) [] (Some document_id) (now e);
                 (docs2, cancel_id) = insert_one docs1 cancel_doc
             in Inr (s\<lparr> documents := docs2, counters := cs' \<rparr>, cancel_id, cancel_doc)))"

definition create_credit_note :: "db \<Rightarrow> env \<Rightarrow> string \<Rightarrow> oid \<Rightarrow> error + (db \<times> oid \<times> document)" where
  "create_credit_note s e cid document_id =
     (case get_document (documents s) cid document_id of
        Inl err \<Rightarrow> Inl err
      | Inr doc \<Rightarrow>
          if document_type doc \<noteq> INVOICE \<and> document_type doc \<noteq> PARTIAL_INVOICE
          then Inl (HTTPException 400 Credit_notes_can_only_reference_invoices)
          else if status doc = CANCELLED
          then Inl (HTTPException 400 Cannot_credit_a_cancelled_document)
          else
            (let (cs', credit_number) = generate_document_number (counters s) cid CREDIT_NOTE;
                 credit_doc = new_document cid (customer_id doc) CREDIT_NOTE credit_number (items doc)
                                (is_kleinunternehmer doc) (''Gutschrift zu '' @ document_number doc) 14
                                (Some (today e)) None (Some (today e)) [] (Some document_id) (now e);
                 (docs1, credit_id) = insert_one (documents s) credit_doc
             in Inr (s\<lparr> documents := docs1, counters := cs' \<rparr>, credit_id, credit_doc)))"

subsection \<open>Partial invoices\<close>

record create_partial_request =
  cp_amount :: rat
  cp_items :: "line_item_create list option"
  cp_notes :: string
  cp_payment_terms_days :: int

text \<open>The sum of the absolute gross totals of the related documents that are partial invoices.\<close>

definition partial_sum_of :: "document list \<Rightarrow> rat" where
  "partial_sum_of existing_partials =
     sum_list (map (\<lambda>p. \<bar>gross (totals p)\<bar>)
                 (filter (\<lambda>p. document_type p = PARTIAL_INVOICE) existing_partials))"

definition create_partial_invoice ::
  "db \<Rightarrow> env \<Rightarrow> string \<Rightarrow> oid \<Rightarrow> create_partial_request \<Rightarrow> error + (db \<times> oid \<times> document)" where
  "create_partial_invoice s e cid document_id data =
     (case get_document (documents s) cid document_id of
        Inl err \<Rightarrow> Inl err
      | Inr doc \<Rightarrow>
          if document_type doc \<noteq> INVOICE
          then Inl (HTTPException 400 Partial_invoices_only_from_invoices)
          else if status doc = CANCELLED
          then Inl (HTTPException 400 Cannot_create_partial_from_cancelled)
          else
            (let existing_partials = find_related_documents (documents s) cid document_id;
                 partial_sum = partial_sum_of existing_partials;
                 original_gross = \<bar>gross (totals doc)\<bar>;
                 requested_amount = cp_amount data
             in if original_gross + 1 / 100 < partial_sum + requested_amount
                then Inl (HTTPException 400
                            (Partial_total_exceeds (partial_sum + requested_amount) original_gross))
                else
                  (let klein = company_is_kleinunternehmer s cid in
                   case (case cp_items data of
                           Some (it # its) \<Rightarrow> resolve_line_items (products s) cid (it # its) klein
                         | _ \<Rightarrow>
                             (let vrate = (if klein then 0 else 19 / 100);
                                  net_amount' = (if vrate \<noteq> 0
                                                 then round2 (requested_amount / (1 + vrate))
                                                 else requested_amount)
                              in Inr [new_line_item [] (''Abschlag zu '' @ document_number doc) []
                                        1 ''Pauschal'' net_amount' vrate 0])) of
                     Inl err \<Rightarrow> Inl err
                   | Inr resolved_items \<Rightarrow>
                       (let (cs', partial_number) =
                              generate_document_number (counters s) cid PARTIAL_INVOICE;
                            issue = today e;
                            ptd = cp_payment_terms_days data;
                            due = calc_due_date issue ptd;
                            partial_doc = new_document cid (customer_id doc) PARTIAL_INVOICE
                                            partial_number resolved_items klein
                                            (if cp_notes data \<noteq> [] then cp_notes data
                                             else ''Abschlagsrechnung zu '' @ document_number doc)
                                            ptd (Some issue) None (Some due) [] (Some document_id) (now e);
                            (docs1, partial_id) = insert_one (documents s) partial_doc
                        in Inr (s\<lparr> documents := docs1, counters := cs' \<rparr>, partial_id, partial_doc)))))"


section \<open>Requests and reachable stores\<close>

text \<open>
  The numeric constraints of the request schemas (\<^verbatim>\<open>app/schemas/document.py\<close>); the document
  type, the status and the payment method are validated by their types. The length limits
  on strings are left out: every store the service can reach is reachable below.
\<close>

definition ALLOWED_VAT_RATES :: "rat list" where
  "ALLOWED_VAT_RATES = [19 / 100, 7 / 100, 0]"

definition valid_line_item_create :: "line_item_create \<Rightarrow> bool" where
  "valid_line_item_create it \<longleftrightarrow>
     0 < in_quantity it \<and> 0 \<le> in_discount_percent it \<and> in_discount_percent it \<le> 100 \<and>
     (case in_unit_price it of None \<Rightarrow> True | Some p \<Rightarrow> 0 < p) \<and>
     (case in_vat_rate it of None \<Rightarrow> True | Some v \<Rightarrow> v \<in> set ALLOWED_VAT_RATES)"

definition valid_terms :: "int \<Rightarrow> bool" where
  "valid_terms ptd \<longleftrightarrow> 0 \<le> ptd \<and> ptd \<le> 365"

datatype command =
    Create_document document_create
  | Update_document oid document_update
  | Update_status oid DocumentStatus
  | Convert_quote_to_invoice oid convert_quote_request
  | Add_payment oid payment_create
  | Add_reminder oid reminder_create
  | Cancel_document oid
  | Create_credit_note oid
  | Create_partial_invoice oid create_partial_request

fun valid_request :: "command \<Rightarrow> bool" where
  "valid_request (Create_document data) \<longleftrightarrow>
     dc_items data \<noteq> [] \<and> list_all valid_line_item_create (dc_items data) \<and>
     valid_terms (dc_payment_terms_days data)"
| "valid_request (Update_document i data) \<longleftrightarrow>
     (case du_items data of None \<Rightarrow> True | Some its \<Rightarrow> list_all valid_line_item_create its) \<and>
     (case du_payment_terms_days data of None \<Rightarrow> True | Some ptd \<Rightarrow> valid_terms ptd)"
| "valid_request (Update_status i new_status) \<longleftrightarrow> True"
| "valid_request (Convert_quote_to_invoice i data) \<longleftrightarrow> valid_terms (cq_payment_terms_days data)"
| "valid_request (Add_payment i data) \<longleftrightarrow> 0 < pc_amount data"
| "valid_request (Add_reminder i data) \<longleftrightarrow> 0 \<le> rc_fee data"
| "valid_request (Cancel_document i) \<longleftrightarrow> True"
| "valid_request (Create_credit_note i) \<longleftrightarrow> True"
| "valid_request (Create_partial_invoice i data) \<longleftrightarrow>
     0 < cp_amount data \<and>
     (case cp_items data of None \<Rightarrow> True | Some its \<Rightarrow> list_all valid_line_item_create its) \<and>
     valid_terms (cp_payment_terms_days data)"

text \<open>One call of the service by a company: the store it leaves, or the error.\<close>

definition store_of :: "error + (db \<times> 'a) \<Rightarrow> error + db" where
  "store_of r = (case r of Inl err \<Rightarrow> Inl err | Inr (s', x) \<Rightarrow> Inr s')"

fun exec :: "db \<Rightarrow> env \<Rightarrow> string \<Rightarrow> command \<Rightarrow> error + db" where
  "exec s e cid (Create_document data) = store_of (create_document s e cid data)"
| "exec s e cid (Update_document i data) = store_of (update_document s e cid i data)"
| "exec s e cid (Update_status i new_status) = store_of (update_status s e cid i new_status)"
| "exec s e cid (Convert_quote_to_invoice i data) = store_of (convert_quote_to_invoice s e cid i data)"
| "exec s e cid (Add_payment i data) = store_of (add_payment s e cid i data)"
| "exec s e cid (Add_reminder i data) = store_of (add_reminder s e cid i data)"
| "exec s e cid (Cancel_document i) = store_of (cancel_document s e cid i)"
| "exec s e cid (Create_credit_note i) = store_of (create_credit_note s e cid i)"
| "exec s e cid (Create_partial_invoice i data) = store_of (create_partial_invoice s e cid i data)"

text \<open>
  The stores the service can reach: it starts without documents, every valid request that
  succeeds is a step, and the products, customers and companies change under the other
  services of the application (among them the VAT-exemption flag of a company).
\<close>

inductive reachable :: "db \<Rightarrow> bool" where
  reachable_init: "documents s = [] \<Longrightarrow> reachable s"
| reachable_step: "reachable s \<Longrightarrow> valid_request c \<Longrightarrow> exec s e cid c = Inr s' \<Longrightarrow> reachable s'"
| reachable_other: "reachable s \<Longrightarrow> reachable (s\<lparr> products := ps, customers := cu, companies := co \<rparr>)"

text \<open>What every stored document keeps: see the theorems on reachable stores below.\<close>

definition totals_inv :: "document \<Rightarrow> bool" where
  "totals_inv d \<longleftrightarrow>
     0 \<le> paid_amount (totals d) \<and>
     remaining_amount (totals d) = gross (totals d) - paid_amount (totals d) \<and>
     (if negative_type (document_type d)
      then net (totals d) \<le> 0 \<and> vat (totals d) \<le> 0 \<and> gross (totals d) \<le> 0
      else True)"



section \<open>The derived fields of a line item, as the specification words them\<close>


section \<open>A worked run\<close>

text \<open>
  The company \<^verbatim>\<open>acme\<close> charges VAT and has one customer. It bills ten hours at 95.00
  with 19 % VAT and 5 % discount.
\<close>

definition ex_env :: env where
  "ex_env = \<lparr> now = 1000, today = 20000 \<rparr>"

definition ex_db :: db where
  "ex_db = \<lparr> documents = [], counters = (\<lambda>k. None), products = (\<lambda>k. None),
             customers = (\<lambda>k. if k = ''cust-1'' then Some ''acme'' else None),
             companies = (\<lambda>k. if k = ''acme'' then Some False else None) \<rparr>"

definition ex_item_create :: line_item_create where
  "ex_item_create = \<lparr> in_product_id = None, in_quantity = 10, in_discount_percent = 5,
       in_name = Some ''Beratung'', in_description = None, in_unit = Some ''Std'',
       in_unit_price = Some 95, in_vat_rate = Some (19 / 100) \<rparr>"

definition ex_create_invoice :: document_create where
  "ex_create_invoice = \<lparr> dc_customer_id = ''cust-1'', dc_document_type = INVOICE,
       dc_items = [ex_item_create], dc_notes = [], dc_payment_terms_days = 14,
       dc_issue_date = None, dc_service_date = None, dc_due_date = None,
       dc_related_document_id = None \<rparr>"

definition ex_item :: line_item where
  "ex_item = \<lparr> product_id = [], name = ''Beratung'', description = [], quantity = 10,
       unit = ''Std'', unit_price = 95, vat_rate = 19 / 100, discount_percent = 5,
       discount_amount = 47.5, net_amount = 902.5, vat_amount = 171.48, gross_amount = 1073.98 \<rparr>"

definition ex_invoice :: document where
  "ex_invoice = \<lparr> company_id = ''acme'', customer_id = ''cust-1'', document_type = INVOICE,
       document_number = ''INV-000001'', status = DRAFT, items = [ex_item],
       totals = \<lparr> net = 902.5, vat = 171.48, gross = 1073.98, paid_amount = 0,
                  remaining_amount = 1073.98 \<rparr>,
       payments = [], reminders = [], is_kleinunternehmer = False, notes = [],
       payment_terms_days = 14, issue_date = Some 20000, service_date = None,
       due_date = Some 20014, pdf_path = [], related_document_id = None,
       created_at = 1000, updated_at = 1000 \<rparr>"

definition ex_counters1 :: "string \<times> string \<Rightarrow> nat option" where
  "ex_counters1 = (\<lambda>k. None)((''acme'', ''document_invoice'') \<mapsto> 1)"

definition ex_s1 :: db where
  "ex_s1 = ex_db\<lparr> documents := [ex_invoice], counters := ex_counters1 \<rparr>"



definition ex_invoice_sent :: document where
  "ex_invoice_sent = ex_invoice\<lparr> status := SENT \<rparr>"

definition ex_s2 :: db where
  "ex_s2 = ex_s1\<lparr> documents := [ex_invoice_sent] \<rparr>"

definition ex_partial_request :: create_partial_request where
  "ex_partial_request = \<lparr> cp_amount = 200, cp_items = None, cp_notes = [],
                           cp_payment_terms_days = 14 \<rparr>"

definition ex_partial_item :: line_item where
  "ex_partial_item = \<lparr> product_id = [], name = ''Abschlag zu INV-000001'', description = [],
       quantity = 1, unit = ''Pauschal'', unit_price = 168.07, vat_rate = 19 / 100,
       discount_percent = 0, discount_amount = 0, net_amount = 168.07, vat_amount = 31.93,
       gross_amount = 200 \<rparr>"

definition ex_partial :: document where
  "ex_partial = \<lparr> company_id = ''acme'', customer_id = ''cust-1'', document_type = PARTIAL_INVOICE,
       document_number = ''TINV-000001'', status = DRAFT, items = [ex_partial_item],
       totals = \<lparr> net = 168.07, vat = 31.93, gross = 200, paid_amount = 0,
                  remaining_amount = 200 \<rparr>,
       payments = [], reminders = [], is_kleinunternehmer = False,
       notes = ''Abschlagsrechnung zu INV-000001'',
       payment_terms_days = 14, issue_date = Some 20000, service_date = None,
       due_date = Some 20014, pdf_path = [], related_document_id = Some 0,
       created_at = 1000, updated_at = 1000 \<rparr>"

definition ex_counters3 :: "string \<times> string \<Rightarrow> nat option" where
  "ex_counters3 = ex_counters1((''acme'', ''document_partial_invoice'') \<mapsto> 1)"

definition ex_s3 :: db where
  "ex_s3 = ex_s2\<lparr> documents := [ex_invoice_sent, ex_partial], counters := ex_counters3 \<rparr>"

definition ex_partial_sent :: document where
  "ex_partial_sent = ex_partial\<lparr> status := SENT \<rparr>"

definition ex_s4 :: db where
  "ex_s4 = ex_s3\<lparr> documents := [ex_invoice_sent, ex_partial_sent] \<rparr>"

definition ex_pay :: "rat \<Rightarrow> payment_create" where
  "ex_pay a = \<lparr> pc_amount = a, pc_date = None, pc_method = BANK \<rparr>"



definition ex_payment :: "rat \<Rightarrow> payment" where
  "ex_payment a = \<lparr> amount = a, p_date = 20000, p_method = BANK, reference = None \<rparr>"

definition ex_invoice_part_paid :: document where
  "ex_invoice_part_paid = ex_invoice_sent\<lparr> status := PARTIALLY_PAID,
       payments := [ex_payment 1000],
       totals := \<lparr> net = 902.5, vat = 171.48, gross = 1073.98, paid_amount = 1000,
                   remaining_amount = 73.98 \<rparr> \<rparr>"

definition ex_s5 :: db where
  "ex_s5 = ex_s4\<lparr> documents := [ex_invoice_part_paid, ex_partial_sent] \<rparr>"

definition ex_partial_paid :: document where
  "ex_partial_paid = ex_partial_sent\<lparr> status := PAID, payments := [ex_payment 200],
       totals := \<lparr> net = 168.07, vat = 31.93, gross = 200, paid_amount = 200,
                   remaining_amount = 0 \<rparr> \<rparr>"

definition ex_cascade_payment :: payment where
  "ex_cascade_payment = \<lparr> amount = 200, p_date = 20000, p_method = BANK,
       reference = Some ''Abschlagsrechnung TINV-000001'' \<rparr>"

definition ex_invoice_overpaid :: document where
  "ex_invoice_overpaid = ex_invoice_part_paid\<lparr>
       payments := [ex_payment 1000, ex_cascade_payment],
       totals := \<lparr> net = 902.5, vat = 171.48, gross = 1073.98, paid_amount = 1200,
                   remaining_amount = - 126.02 \<rparr> \<rparr>"

definition ex_s6 :: db where
  "ex_s6 = ex_s5\<lparr> documents := [ex_invoice_overpaid, ex_partial_paid] \<rparr>"




section \<open>Evaluation of amounts\<close>

lemma floor_rat_numeral_divide [simp]:
  "\<lfloor>numeral a / numeral b :: rat\<rfloor> = numeral a div numeral b"
  by (metis floor_divide_of_int_eq of_int_numeral)

lemma floor_rat_neg_numeral_divide [simp]:
  "\<lfloor>- (numeral a / numeral b) :: rat\<rfloor> = - numeral a div numeral b"
  by (metis divide_minus_left floor_divide_of_int_eq of_int_neg_numeral of_int_numeral)

lemmas round2_eval = round2_def round_half_even_def Let_def

section \<open>Lemmas on the repositories and the payment path\<close>

subsection \<open>Lookup\<close>

lemma find_by_id_Some: "find_by_id docs i = Some d \<longleftrightarrow> i < length docs \<and> d = docs ! i"
  by (auto simp: find_by_id_def)

lemma get_document_Inr:
  "get_document docs cid i = Inr d \<longleftrightarrow> i < length docs \<and> d = docs ! i \<and> company_id d = cid"
  by (auto simp: get_document_def find_by_id_def split: option.splits)


lemma get_document_update_other:
  "i \<noteq> j \<Longrightarrow> get_document (docs[i := d]) cid j = get_document docs cid j"
  by (simp add: get_document_def find_by_id_def)

subsection \<open>Repository updates on a document that exists\<close>

lemma update_one_at:
  "i < length docs \<Longrightarrow>
   update_one docs i f t = (docs[i := (f (docs ! i))\<lparr> updated_at := t \<rparr>], Some ((f (docs ! i))\<lparr> updated_at := t \<rparr>))"
  by (simp add: update_one_def Let_def)

lemma repo_add_payment_at:
  "i < length docs \<Longrightarrow>
   repo_add_payment docs i p t = (docs[i := push_payment (docs ! i) p t], Some (push_payment (docs ! i) p t))"
  by (simp add: repo_add_payment_def Let_def)


lemma push_payment_fields [simp]:
  "company_id (push_payment d p t) = company_id d"
  "document_type (push_payment d p t) = document_type d"
  "status (push_payment d p t) = status d"
  "document_number (push_payment d p t) = document_number d"
  "related_document_id (push_payment d p t) = related_document_id d"
  "updated_at (push_payment d p t) = t"
  "payments (push_payment d p t) = payments d @ [p]"
  "gross (totals (push_payment d p t)) = gross (totals d)"
  "net (totals (push_payment d p t)) = net (totals d)"
  "vat (totals (push_payment d p t)) = vat (totals d)"
  "paid_amount (totals (push_payment d p t)) = paid_amount (totals d) + amount p"
  "remaining_amount (totals (push_payment d p t)) = remaining_amount (totals d) - amount p"
  "items (push_payment d p t) = items d"
  "reminders (push_payment d p t) = reminders d"
  by (simp_all add: push_payment_def)

subsection \<open>The cascade\<close>

lemma status_update_same_time:
  "updated_at d = t \<Longrightarrow> (d\<lparr> status := st \<rparr>)\<lparr> updated_at := t \<rparr> = d\<lparr> status := st \<rparr>"
  by (cases d) simp

lemma status_after_payment_cases:
  "(if \<bar>paid_amount (totals q) - \<bar>gross (totals q)\<bar>\<bar> < 1 / 100 then q\<lparr> status := PAID \<rparr>
    else if 0 < paid_amount (totals q) then q\<lparr> status := PARTIALLY_PAID \<rparr> else q)
   = q\<lparr> status := status_after_payment q \<rparr>"
  by (simp add: status_after_payment_def Let_def)

lemma sync_parent_invoice_gen:
  assumes "pid < length docs" and "company_id (docs ! pid) = cid"
    and "document_type (docs ! pid) = INVOICE"
    and "q = push_payment (docs ! pid)
                \<lparr> amount = \<bar>gross (totals upd)\<bar>, p_date = pd, p_method = m,
                  reference = Some (''Abschlagsrechnung '' @ document_number upd) \<rparr> (now e)"
  shows "sync_parent docs e cid pid upd pd m = Inr (docs[pid := q\<lparr> status := status_after_payment q \<rparr>])"
proof -
  have g: "get_document docs cid pid = Inr (docs ! pid)"
    using assms(1,2) by (simp add: get_document_Inr)
  have r: "repo_add_payment docs pid
             \<lparr> amount = \<bar>gross (totals upd)\<bar>, p_date = pd, p_method = m,
               reference = Some (''Abschlagsrechnung '' @ document_number upd) \<rparr> (now e)
           = (docs[pid := q], Some q)"
    using assms(1,4) by (simp only: repo_add_payment_at)
  have lt: "pid < length (docs[pid := q])" using assms(1) by simp
  have uq: "updated_at q = now e" using assms(4) by simp
  have u: "\<And>st. fst (update_one (docs[pid := q]) pid (\<lambda>d. d\<lparr> status := st \<rparr>) (now e))
                 = docs[pid := q\<lparr> status := st \<rparr>]"
    using assms(1) uq by (simp add: update_one_at [OF lt] status_update_same_time)
  have "sync_parent docs e cid pid upd pd m =
          Inr (docs[pid := (if \<bar>paid_amount (totals q) - \<bar>gross (totals q)\<bar>\<bar> < 1 / 100
                            then q\<lparr> status := PAID \<rparr>
                            else if 0 < paid_amount (totals q) then q\<lparr> status := PARTIALLY_PAID \<rparr>
                            else q)])"
    unfolding sync_parent_def g Let_def r using assms(3) u by simp
  then show ?thesis by (simp only: status_after_payment_cases)
qed

lemma sync_parent_invoice:
  assumes "get_document docs cid pid = Inr parent" and "document_type parent = INVOICE"
    and "q = push_payment parent
                \<lparr> amount = \<bar>gross (totals upd)\<bar>, p_date = pd, p_method = m,
                  reference = Some (''Abschlagsrechnung '' @ document_number upd) \<rparr> (now e)"
  shows "sync_parent docs e cid pid upd pd m = Inr (docs[pid := q\<lparr> status := status_after_payment q \<rparr>])"
proof -
  from assms(1) have a: "pid < length docs" and b: "docs ! pid = parent"
    and c: "company_id (docs ! pid) = cid"
    by (auto simp: get_document_Inr)
  from assms(2) b have d: "document_type (docs ! pid) = INVOICE" by simp
  from assms(3) b have f: "q = push_payment (docs ! pid)
                \<lparr> amount = \<bar>gross (totals upd)\<bar>, p_date = pd, p_method = m,
                  reference = Some (''Abschlagsrechnung '' @ document_number upd) \<rparr> (now e)"
    by (simp only:)
  show ?thesis by (rule sync_parent_invoice_gen [OF a c d f])
qed




subsection \<open>A payment that passes the guards\<close>

lemma add_payment_accepted:
  assumes g: "get_document (documents s) cid i = Inr doc"
    and ty: "document_type doc = INVOICE \<or> document_type doc = PARTIAL_INVOICE"
    and st: "status doc \<noteq> CANCELLED" "status doc \<noteq> PAID" "status doc \<noteq> DRAFT"
    and am: "pc_amount data \<le> remaining_amount (totals doc) + 1 / 100"
    and p: "p = \<lparr> amount = pc_amount data, p_date = date_or (pc_date data) (today e),
                   p_method = pc_method data, reference = None \<rparr>"
    and d1: "d1 = push_payment doc p (now e)"
    and d2: "d2 = d1\<lparr> status := status_after_payment d1 \<rparr>"
  shows "add_payment s e cid i data =
          (case (if document_type d2 = PARTIAL_INVOICE \<and> status d2 = PAID
                 then related_document_id d2 else None) of
             None \<Rightarrow> Inr (s\<lparr> documents := (documents s)[i := d2] \<rparr>, d2)
           | Some parent_id \<Rightarrow>
               (case sync_parent ((documents s)[i := d2]) e cid parent_id d2 (p_date p) (pc_method data) of
                  Inr docs3 \<Rightarrow> Inr (s\<lparr> documents := docs3 \<rparr>, d2)
                | Inl (HTTPException code msg) \<Rightarrow> Inr (s\<lparr> documents := (documents s)[i := d2] \<rparr>, d2)
                | Inl TypeError \<Rightarrow> Inl TypeError))"
proof -
  from g have lt: "i < length (documents s)" and dd: "documents s ! i = doc"
    by (auto simp: get_document_Inr)
  have r: "repo_add_payment (documents s) i p (now e) = ((documents s)[i := d1], Some d1)"
    using lt dd d1 by (simp add: repo_add_payment_at)
  have lt1: "i < length ((documents s)[i := d1])" using lt by simp
  have t1: "updated_at d1 = now e" using d1 by simp
  have u: "update_one ((documents s)[i := d1]) i (\<lambda>d. d\<lparr> status := status_after_payment d1 \<rparr>) (now e)
             = ((documents s)[i := d2], Some d2)"
    using lt t1 d2 by (simp add: update_one_at [OF lt1] status_update_same_time)
  have same: "status_after_payment d1 = status d1 \<Longrightarrow> d2 = d1"
    using d2 by simp
  have step: "(if status_after_payment d1 \<noteq> status d1
               then update_one ((documents s)[i := d1]) i
                      (\<lambda>d. d\<lparr> status := status_after_payment d1 \<rparr>) (now e)
               else ((documents s)[i := d1], Some d1)) = ((documents s)[i := d2], Some d2)"
    using u same by simp
  have ns: "status_after_payment d1 = status d2" using d2 by simp
  have guard1: "\<not> (document_type doc \<noteq> INVOICE \<and> document_type doc \<noteq> PARTIAL_INVOICE)"
    using ty by simp
  have guard2: "\<not> (status doc = CANCELLED \<or> status doc = PAID \<or> status doc = DRAFT)"
    using st by simp
  have guard3: "\<not> remaining_amount (totals doc) + 1 / 100 < pc_amount data"
    using am by simp
  show ?thesis
    unfolding add_payment_def g Let_def
    apply (simp only: sum.case if_not_P [OF guard1] if_not_P [OF guard2] if_not_P [OF guard3])
    apply (simp only: p [symmetric] r prod.case option.case step)
    apply (simp only: ns p payment.simps)
    done
qed


section \<open>Lemmas on the operations\<close>

subsection \<open>Payments that are refused\<close>






subsection \<open>The totals invariant under the updates of one document\<close>





lemma totals_inv_updated_at: "totals_inv d \<Longrightarrow> totals_inv (d\<lparr> updated_at := t \<rparr>)"
  by (simp add: totals_inv_def)






subsection \<open>Reminders\<close>








subsection \<open>Status changes\<close>



lemma update_status_accepted:
  assumes g: "get_document (documents s) cid i = Inr doc"
    and v: "validate_status_transition (document_type doc) (status doc) tgt = Inr ()"
    and u: "upd = doc\<lparr> status := tgt, updated_at := now e \<rparr>"
  shows "update_status s e cid i tgt =
           Inr (if document_type doc = QUOTE \<and> tgt = ACCEPTED
                then create_order_confirmation_from_quote
                       (s\<lparr> documents := (documents s)[i := upd] \<rparr>) e cid i upd
                else s\<lparr> documents := (documents s)[i := upd] \<rparr>, upd)"
proof -
  from g have lt: "i < length (documents s)" and dd: "documents s ! i = doc"
    by (auto simp: get_document_Inr)
  show ?thesis
    unfolding update_status_def g
    by (simp add: v update_one_at [OF lt] dd u Let_def)
qed


lemma create_order_confirmation_counters:
  "counters (create_order_confirmation_from_quote s e cid qid quote) =
     fst (generate_document_number (counters s) cid ORDER_CONFIRMATION)"
  by (simp add: create_order_confirmation_from_quote_def Let_def insert_one_def split_def)



subsection \<open>Operations that add a document\<close>










subsection \<open>Partial invoices\<close>





text \<open>The items of the partial invoice: those of the request, or the one derived from the amount.\<close>

lemma create_partial_invoice_under_cap:
  assumes g: "get_document (documents s) cid i = Inr doc" and ty: "document_type doc = INVOICE"
    and st: "status doc \<noteq> CANCELLED"
    and cap: "partial_sum_of (find_related_documents (documents s) cid i) + cp_amount data
                \<le> \<bar>gross (totals doc)\<bar> + 1 / 100"
    and its: "its = (case cp_items data of
                      Some (it # rest) \<Rightarrow>
                        resolve_line_items (products s) cid (it # rest) (company_is_kleinunternehmer s cid)
                    | _ \<Rightarrow>
                        (let vrate = (if company_is_kleinunternehmer s cid then 0 else 19 / 100);
                             net_amount' = (if vrate \<noteq> 0 then round2 (cp_amount data / (1 + vrate))
                                            else cp_amount data)
                         in Inr [new_line_item [] (''Abschlag zu '' @ document_number doc) []
                                   1 ''Pauschal'' net_amount' vrate 0]))"
  shows "create_partial_invoice s e cid i data =
          (case its of
             Inl err \<Rightarrow> Inl err
           | Inr resolved \<Rightarrow>
               (let d = new_document cid (customer_id doc) PARTIAL_INVOICE
                          (snd (generate_document_number (counters s) cid PARTIAL_INVOICE))
                          resolved (company_is_kleinunternehmer s cid)
                          (if cp_notes data \<noteq> [] then cp_notes data
                           else ''Abschlagsrechnung zu '' @ document_number doc)
                          (cp_payment_terms_days data) (Some (today e)) None
                          (Some (calc_due_date (today e) (cp_payment_terms_days data)))
                          [] (Some i) (now e)
                in Inr (s\<lparr> documents := documents s @ [d],
                           counters := fst (generate_document_number (counters s) cid PARTIAL_INVOICE) \<rparr>,
                        length (documents s), d)))"
proof -
  have guard: "\<not> \<bar>gross (totals doc)\<bar> + 1 / 100
                 < partial_sum_of (find_related_documents (documents s) cid i) + cp_amount data"
    using cap by simp
  show ?thesis
    unfolding create_partial_invoice_def g its
    by (simp add: ty st guard Let_def insert_one_def split_def split: sum.splits)
qed



subsection \<open>Edits of a draft\<close>







subsection \<open>Every reachable store\<close>




section \<open>Evaluation of the worked run\<close>

lemma replicate_numeral_char: "replicate (numeral k) (c::char) = c # replicate (pred_numeral k) c"
  by (simp add: numeral_eq_Suc)

lemma ex_line: "new_line_item [] ''Beratung'' [] 10 ''Std'' 95 (19 / 100) 5 = ex_item"
  by (simp add: new_line_item_def ex_item_def round2_eval)

lemma str_nat_digit: "n < 10 \<Longrightarrow> str_nat n = [digit_char n]"
  by (simp add: str_nat.simps)

lemma ex_fmt1: "format_06d (Suc 0) = ''000001''"
  by (simp add: format_06d_def str_nat_digit digit_char_def replicate_numeral_char)

lemma ex_number1: "generate_document_number (\<lambda>k. None) ''acme'' INVOICE = (ex_counters1, ''INV-000001'')"
  by (simp add: generate_document_number_def get_next_number_def ex_fmt1 ex_counters1_def)

lemma ex_resolve:
  "resolve_line_items (\<lambda>k. None) ''acme'' [ex_item_create] False = Inr [ex_item]"
  by (simp add: resolve_line_item_def ex_item_create_def str_or_def num_or_def ex_line)

lemma ex_new_invoice:
  "new_document ''acme'' ''cust-1'' INVOICE ''INV-000001'' [ex_item] False [] 14
     (Some 20000) None (Some 20014) [] None 1000 = ex_invoice"
  by (simp add: new_document_def negative_type_def ex_item_def ex_invoice_def round2_eval)

lemma create_document_accepted:
  assumes "customers s (dc_customer_id data) = Some cid"
    and "resolve_line_items (products s) cid (dc_items data) (company_is_kleinunternehmer s cid) = Inr resolved"
    and "generate_document_number (counters s) cid (dc_document_type data) = (cs', num)"
    and "d = new_document cid (dc_customer_id data) (dc_document_type data) num
           resolved (company_is_kleinunternehmer s cid) (dc_notes data) (dc_payment_terms_days data)
           (Some (date_or (dc_issue_date data) (today e))) (dc_service_date data)
           (Some (date_or (dc_due_date data)
              (calc_due_date (date_or (dc_issue_date data) (today e)) (dc_payment_terms_days data))))
           [] (dc_related_document_id data) (now e)"
  shows "create_document s e cid data =
           Inr (s\<lparr> documents := documents s @ [d], counters := cs' \<rparr>, length (documents s), d)"
  using assms by (simp add: create_document_def Let_def insert_one_def)

lemma ex_kl: "company_is_kleinunternehmer ex_db ''acme'' = False"
  by (simp add: company_is_kleinunternehmer_def ex_db_def)

lemma ex_step1: "create_document ex_db ex_env ''acme'' ex_create_invoice = Inr (ex_s1, 0, ex_invoice)"
proof -
  have a: "customers ex_db (dc_customer_id ex_create_invoice) = Some ''acme''"
    by (simp add: ex_db_def ex_create_invoice_def)
  have b: "resolve_line_items (products ex_db) ''acme'' (dc_items ex_create_invoice)
             (company_is_kleinunternehmer ex_db ''acme'') = Inr [ex_item]"
    unfolding ex_kl by (simp add: ex_db_def ex_create_invoice_def ex_resolve del: resolve_line_items.simps)
  have c: "generate_document_number (counters ex_db) ''acme'' (dc_document_type ex_create_invoice)
             = (ex_counters1, ''INV-000001'')"
    by (simp add: ex_db_def ex_create_invoice_def ex_number1)
  have d: "ex_invoice = new_document ''acme'' (dc_customer_id ex_create_invoice)
           (dc_document_type ex_create_invoice) ''INV-000001''
           [ex_item] (company_is_kleinunternehmer ex_db ''acme'') (dc_notes ex_create_invoice)
           (dc_payment_terms_days ex_create_invoice)
           (Some (date_or (dc_issue_date ex_create_invoice) (today ex_env)))
           (dc_service_date ex_create_invoice)
           (Some (date_or (dc_due_date ex_create_invoice)
              (calc_due_date (date_or (dc_issue_date ex_create_invoice) (today ex_env))
                 (dc_payment_terms_days ex_create_invoice))))
           [] (dc_related_document_id ex_create_invoice) (now ex_env)"
    unfolding ex_kl
    by (simp add: ex_create_invoice_def ex_env_def date_or_def calc_due_date_def ex_new_invoice)
  show ?thesis
    unfolding create_document_accepted [OF a b c d]
    by (simp add: ex_s1_def ex_db_def)
qed


section \<open>Line items\<close>













section \<open>The run continued: sending, a partial invoice\<close>

lemma ex_docs: "documents ex_s1 = [ex_invoice]" "documents ex_s2 = [ex_invoice_sent]"
  "documents ex_s3 = [ex_invoice_sent, ex_partial]"
  "documents ex_s4 = [ex_invoice_sent, ex_partial_sent]"
  by (simp_all add: ex_s1_def ex_s2_def ex_s3_def ex_s4_def)

lemma ex_counters: "counters ex_s1 = ex_counters1" "counters ex_s2 = ex_counters1"
  "counters ex_s3 = ex_counters3" "counters ex_s4 = ex_counters3"
  by (simp_all add: ex_s1_def ex_s2_def ex_s3_def ex_s4_def)

lemma ex_kl2: "company_is_kleinunternehmer ex_s2 ''acme'' = False"
  by (simp add: company_is_kleinunternehmer_def ex_s2_def ex_s1_def ex_db_def)

lemma ex_invoice_fields:
  "company_id ex_invoice = ''acme''" "document_type ex_invoice = INVOICE"
  "status ex_invoice = DRAFT" "updated_at ex_invoice = 1000"
  "document_number ex_invoice = ''INV-000001''" "customer_id ex_invoice = ''cust-1''"
  "totals ex_invoice = \<lparr> net = 902.5, vat = 171.48, gross = 1073.98, paid_amount = 0,
                  remaining_amount = 1073.98 \<rparr>"
  "payments ex_invoice = []" "reminders ex_invoice = []" "related_document_id ex_invoice = None"
  "items ex_invoice = [ex_item]" "is_kleinunternehmer ex_invoice = False"
  by (simp_all add: ex_invoice_def)

lemma ex_partial_fields:
  "company_id ex_partial = ''acme''" "document_type ex_partial = PARTIAL_INVOICE"
  "status ex_partial = DRAFT" "updated_at ex_partial = 1000"
  "document_number ex_partial = ''TINV-000001''"
  "totals ex_partial = \<lparr> net = 168.07, vat = 31.93, gross = 200, paid_amount = 0,
                  remaining_amount = 200 \<rparr>"
  "payments ex_partial = []" "reminders ex_partial = []" "related_document_id ex_partial = Some 0"
  by (simp_all add: ex_partial_def)

lemma ex_get1: "get_document (documents ex_s1) ''acme'' 0 = Inr ex_invoice"
  by (simp add: get_document_Inr ex_docs ex_invoice_fields)

lemma ex_get2: "get_document (documents ex_s2) ''acme'' 0 = Inr ex_invoice_sent"
  by (simp add: get_document_Inr ex_docs ex_invoice_sent_def ex_invoice_fields)

lemma ex_step2: "update_status ex_s1 ex_env ''acme'' 0 SENT = Inr (ex_s2, ex_invoice_sent)"
proof -
  have v: "validate_status_transition (document_type ex_invoice) (status ex_invoice) SENT = Inr ()"
    by (simp add: validate_status_transition_def ex_invoice_fields)
  have u: "ex_invoice_sent = ex_invoice\<lparr> status := SENT, updated_at := now ex_env \<rparr>"
    by (simp add: ex_invoice_sent_def ex_invoice_def ex_env_def)
  show ?thesis
    unfolding update_status_accepted [OF ex_get1 v u]
    by (simp add: ex_invoice_fields ex_docs ex_s2_def)
qed

lemma ex_related2: "find_related_documents (documents ex_s2) ''acme'' 0 = []"
  by (simp add: find_related_documents_def ex_docs ex_invoice_sent_def ex_invoice_fields)

lemma ex_number3:
  "generate_document_number ex_counters1 ''acme'' PARTIAL_INVOICE = (ex_counters3, ''TINV-000001'')"
  by (simp add: generate_document_number_def get_next_number_def ex_fmt1 ex_counters3_def
        ex_counters1_def)

lemma ex_partial_line:
  "new_line_item [] ''Abschlag zu INV-000001'' [] 1 ''Pauschal'' (round2 (200 / (1 + 19 / 100)))
     (19 / 100) 0 = ex_partial_item"
  by (simp add: new_line_item_def ex_partial_item_def round2_eval)

lemma ex_new_partial:
  "new_document ''acme'' ''cust-1'' PARTIAL_INVOICE ''TINV-000001'' [ex_partial_item] False
     ''Abschlagsrechnung zu INV-000001'' 14 (Some 20000) None (Some 20014) [] (Some 0) 1000
   = ex_partial"
  by (simp add: new_document_def negative_type_def ex_partial_item_def ex_partial_def round2_eval)

lemma ex_step3:
  "create_partial_invoice ex_s2 ex_env ''acme'' 0 ex_partial_request = Inr (ex_s3, 1, ex_partial)"
proof -
  have ty: "document_type ex_invoice_sent = INVOICE" and st: "status ex_invoice_sent \<noteq> CANCELLED"
    by (simp_all add: ex_invoice_sent_def ex_invoice_fields)
  have cap: "partial_sum_of (find_related_documents (documents ex_s2) ''acme'' 0)
               + cp_amount ex_partial_request \<le> \<bar>gross (totals ex_invoice_sent)\<bar> + 1 / 100"
    by (simp add: ex_related2 partial_sum_of_def ex_partial_request_def ex_invoice_sent_def
          ex_invoice_fields)
  have its: "Inr [ex_partial_item] =
      (case cp_items ex_partial_request of
         Some (it # rest) \<Rightarrow>
           resolve_line_items (products ex_s2) ''acme'' (it # rest) (company_is_kleinunternehmer ex_s2 ''acme'')
       | _ \<Rightarrow>
           (let vrate = (if company_is_kleinunternehmer ex_s2 ''acme'' then 0 else 19 / 100);
                net_amount' = (if vrate \<noteq> 0 then round2 (cp_amount ex_partial_request / (1 + vrate))
                               else cp_amount ex_partial_request)
            in Inr [new_line_item [] (''Abschlag zu '' @ document_number ex_invoice_sent) []
                      1 ''Pauschal'' net_amount' vrate 0]))"
    by (simp add: ex_partial_request_def ex_kl2 ex_invoice_sent_def ex_invoice_fields
          new_line_item_def ex_partial_item_def round2_eval)
  note eq = create_partial_invoice_under_cap [OF ex_get2 ty st cap its, of ex_env]
  show ?thesis
    unfolding eq
    by (simp add: ex_partial_request_def ex_kl2 ex_counters ex_number3 ex_invoice_sent_def
          ex_invoice_fields ex_env_def calc_due_date_def ex_new_partial
          ex_docs ex_s3_def Let_def)
qed

lemma ex_get3: "get_document (documents ex_s3) ''acme'' 1 = Inr ex_partial"
  by (simp add: get_document_Inr ex_docs ex_partial_fields)

lemma ex_step4: "update_status ex_s3 ex_env ''acme'' 1 SENT = Inr (ex_s4, ex_partial_sent)"
proof -
  have v: "validate_status_transition (document_type ex_partial) (status ex_partial) SENT = Inr ()"
    by (simp add: validate_status_transition_def ex_partial_fields)
  have u: "ex_partial_sent = ex_partial\<lparr> status := SENT, updated_at := now ex_env \<rparr>"
    by (simp add: ex_partial_sent_def ex_partial_def ex_env_def)
  show ?thesis
    unfolding update_status_accepted [OF ex_get3 v u]
    by (simp add: ex_partial_fields ex_docs ex_s4_def)
qed

lemma ex_reachable1: "reachable ex_s1"
proof -
  have "reachable ex_db" by (rule reachable_init) (simp add: ex_db_def)
  moreover have "valid_request (Create_document ex_create_invoice)"
    by (simp add: ex_create_invoice_def ex_item_create_def valid_line_item_create_def
          valid_terms_def ALLOWED_VAT_RATES_def)
  moreover have "exec ex_db ex_env ''acme'' (Create_document ex_create_invoice) = Inr ex_s1"
    by (simp add: ex_step1 store_of_def)
  ultimately show ?thesis by (rule reachable_step)
qed

lemma ex_reachable2: "reachable ex_s2"
proof -
  have "exec ex_s1 ex_env ''acme'' (Update_status 0 SENT) = Inr ex_s2"
    unfolding exec.simps ex_step2 by (simp add: store_of_def)
  moreover have "valid_request (Update_status 0 SENT)" by simp
  ultimately show ?thesis using ex_reachable1 reachable_step by blast
qed

lemma ex_reachable3: "reachable ex_s3"
proof -
  have "exec ex_s2 ex_env ''acme'' (Create_partial_invoice 0 ex_partial_request) = Inr ex_s3"
    unfolding exec.simps ex_step3 by (simp add: store_of_def)
  moreover have "valid_request (Create_partial_invoice 0 ex_partial_request)"
    by (simp add: ex_partial_request_def valid_terms_def)
  ultimately show ?thesis using ex_reachable2 reachable_step by blast
qed

lemma ex_reachable4: "reachable ex_s4"
proof -
  have "exec ex_s3 ex_env ''acme'' (Update_status 1 SENT) = Inr ex_s4"
    unfolding exec.simps ex_step4 by (simp add: store_of_def)
  moreover have "valid_request (Update_status 1 SENT)" by simp
  ultimately show ?thesis using ex_reachable3 reachable_step by blast
qed


section \<open>Payments\<close>









lemma ex_invoice_sent_fields:
  "company_id ex_invoice_sent = ''acme''" "document_type ex_invoice_sent = INVOICE"
  "status ex_invoice_sent = SENT" "updated_at ex_invoice_sent = 1000"
  "document_number ex_invoice_sent = ''INV-000001''"
  "totals ex_invoice_sent = \<lparr> net = 902.5, vat = 171.48, gross = 1073.98, paid_amount = 0,
                  remaining_amount = 1073.98 \<rparr>"
  "payments ex_invoice_sent = []" "reminders ex_invoice_sent = []"
  "related_document_id ex_invoice_sent = None"
  by (simp_all add: ex_invoice_sent_def ex_invoice_def)


section \<open>The run continued: payments\<close>

lemma ex_partial_sent_fields:
  "company_id ex_partial_sent = ''acme''" "document_type ex_partial_sent = PARTIAL_INVOICE"
  "status ex_partial_sent = SENT" "updated_at ex_partial_sent = 1000"
  "document_number ex_partial_sent = ''TINV-000001''"
  "totals ex_partial_sent = \<lparr> net = 168.07, vat = 31.93, gross = 200, paid_amount = 0,
                  remaining_amount = 200 \<rparr>"
  "payments ex_partial_sent = []" "reminders ex_partial_sent = []"
  "related_document_id ex_partial_sent = Some 0"
  by (simp_all add: ex_partial_sent_def ex_partial_def)

lemma ex_docs5: "documents ex_s5 = [ex_invoice_part_paid, ex_partial_sent]"
  "documents ex_s6 = [ex_invoice_overpaid, ex_partial_paid]"
  by (simp_all add: ex_s5_def ex_s6_def)

lemma ex_get4: "get_document (documents ex_s4) ''acme'' 0 = Inr ex_invoice_sent"
  "get_document (documents ex_s4) ''acme'' 1 = Inr ex_partial_sent"
  by (simp_all add: get_document_Inr ex_docs ex_invoice_sent_fields ex_partial_sent_fields)

lemma ex_step5:
  "add_payment ex_s4 ex_env ''acme'' 0 (ex_pay 1000) = Inr (ex_s5, ex_invoice_part_paid)"
proof -
  have ty: "document_type ex_invoice_sent = INVOICE \<or> document_type ex_invoice_sent = PARTIAL_INVOICE"
    and st: "status ex_invoice_sent \<noteq> CANCELLED" "status ex_invoice_sent \<noteq> PAID"
            "status ex_invoice_sent \<noteq> DRAFT"
    and am: "pc_amount (ex_pay 1000) \<le> remaining_amount (totals ex_invoice_sent) + 1 / 100"
    by (simp_all add: ex_invoice_sent_fields ex_pay_def)
  have p: "ex_payment 1000 = \<lparr> amount = pc_amount (ex_pay 1000),
              p_date = date_or (pc_date (ex_pay 1000)) (today ex_env),
              p_method = pc_method (ex_pay 1000), reference = None \<rparr>"
    by (simp add: ex_payment_def ex_pay_def date_or_def ex_env_def)
  have d2: "ex_invoice_part_paid =
      (push_payment ex_invoice_sent (ex_payment 1000) (now ex_env))
        \<lparr> status := status_after_payment (push_payment ex_invoice_sent (ex_payment 1000) (now ex_env)) \<rparr>"
    by (simp add: ex_invoice_part_paid_def push_payment_def status_after_payment_def
          ex_invoice_sent_def ex_invoice_def ex_payment_def ex_env_def)
  have ty2: "document_type ex_invoice_part_paid = INVOICE"
    by (simp add: ex_invoice_part_paid_def ex_invoice_sent_fields)
  show ?thesis
    unfolding add_payment_accepted [OF ex_get4(1) ty st am p refl d2]
    by (simp add: ty2 ex_docs ex_s5_def)
qed

lemma ex_reachable5: "reachable ex_s5"
proof -
  have "exec ex_s4 ex_env ''acme'' (Add_payment 0 (ex_pay 1000)) = Inr ex_s5"
    unfolding exec.simps ex_step5 by (simp add: store_of_def)
  moreover have "valid_request (Add_payment 0 (ex_pay 1000))" by (simp add: ex_pay_def)
  ultimately show ?thesis using ex_reachable4 reachable_step by blast
qed


section \<open>The cascade to the parent invoice\<close>




lemma ex_get5: "get_document (documents ex_s5) ''acme'' 0 = Inr ex_invoice_part_paid"
  "get_document (documents ex_s5) ''acme'' 1 = Inr ex_partial_sent"
  by (simp_all add: get_document_Inr ex_docs5 ex_partial_sent_fields ex_invoice_part_paid_def
        ex_invoice_sent_fields)

lemma ex_partial_paid_eq:
  "ex_partial_paid =
      (push_payment ex_partial_sent (ex_payment 200) (now ex_env))
        \<lparr> status := status_after_payment (push_payment ex_partial_sent (ex_payment 200) (now ex_env)) \<rparr>"
  by (simp add: ex_partial_paid_def push_payment_def status_after_payment_def
        ex_partial_sent_def ex_partial_def ex_payment_def ex_env_def)

lemma ex_invoice_overpaid_eq:
  "ex_invoice_overpaid =
     (push_payment ex_invoice_part_paid
        \<lparr> amount = \<bar>gross (totals ex_partial_paid)\<bar>, p_date = 20000, p_method = BANK,
          reference = Some (''Abschlagsrechnung '' @ document_number ex_partial_paid) \<rparr> (now ex_env))
       \<lparr> status := status_after_payment (push_payment ex_invoice_part_paid
        \<lparr> amount = \<bar>gross (totals ex_partial_paid)\<bar>, p_date = 20000, p_method = BANK,
          reference = Some (''Abschlagsrechnung '' @ document_number ex_partial_paid) \<rparr> (now ex_env)) \<rparr>"
  by (simp add: ex_invoice_overpaid_def ex_invoice_part_paid_def push_payment_def
        status_after_payment_def ex_partial_paid_def ex_partial_sent_def ex_partial_def
        ex_invoice_sent_def ex_invoice_def ex_payment_def ex_cascade_payment_def ex_env_def)

lemma ex_step6:
  "add_payment ex_s5 ex_env ''acme'' 1 (ex_pay 200) = Inr (ex_s6, ex_partial_paid)"
proof -
  have ty: "document_type ex_partial_sent = INVOICE \<or> document_type ex_partial_sent = PARTIAL_INVOICE"
    and st: "status ex_partial_sent \<noteq> CANCELLED" "status ex_partial_sent \<noteq> PAID"
            "status ex_partial_sent \<noteq> DRAFT"
    and am: "pc_amount (ex_pay 200) \<le> remaining_amount (totals ex_partial_sent) + 1 / 100"
    by (simp_all add: ex_partial_sent_fields ex_pay_def)
  have p: "ex_payment 200 = \<lparr> amount = pc_amount (ex_pay 200),
              p_date = date_or (pc_date (ex_pay 200)) (today ex_env),
              p_method = pc_method (ex_pay 200), reference = None \<rparr>"
    by (simp add: ex_payment_def ex_pay_def date_or_def ex_env_def)
  have f: "document_type ex_partial_paid = PARTIAL_INVOICE" "status ex_partial_paid = PAID"
    "related_document_id ex_partial_paid = Some 0"
    by (simp_all add: ex_partial_paid_def ex_partial_sent_fields)
  have gp: "get_document ((documents ex_s5)[1 := ex_partial_paid]) ''acme'' 0 = Inr ex_invoice_part_paid"
    using ex_get5(1) by (simp add: get_document_update_other)
  have tp: "document_type ex_invoice_part_paid = INVOICE"
    by (simp add: ex_invoice_part_paid_def ex_invoice_sent_fields)
  have q: "ex_invoice_overpaid =
     (push_payment ex_invoice_part_paid
        \<lparr> amount = \<bar>gross (totals ex_partial_paid)\<bar>, p_date = p_date (ex_payment 200),
          p_method = pc_method (ex_pay 200),
          reference = Some (''Abschlagsrechnung '' @ document_number ex_partial_paid) \<rparr> (now ex_env))
       \<lparr> status := status_after_payment (push_payment ex_invoice_part_paid
        \<lparr> amount = \<bar>gross (totals ex_partial_paid)\<bar>, p_date = p_date (ex_payment 200),
          p_method = pc_method (ex_pay 200),
          reference = Some (''Abschlagsrechnung '' @ document_number ex_partial_paid) \<rparr> (now ex_env)) \<rparr>"
    using ex_invoice_overpaid_eq by (simp add: ex_payment_def ex_pay_def)
  have sync: "sync_parent ((documents ex_s5)[1 := ex_partial_paid]) ex_env ''acme'' 0 ex_partial_paid
                (p_date (ex_payment 200)) (pc_method (ex_pay 200))
              = Inr ((documents ex_s5)[1 := ex_partial_paid, 0 := ex_invoice_overpaid])"
    unfolding sync_parent_invoice [OF gp tp refl] q [symmetric] ..
  have sync': "sync_parent [ex_invoice_part_paid, ex_partial_paid] ex_env ''acme'' 0 ex_partial_paid
                (p_date (ex_payment 200)) (pc_method (ex_pay 200))
              = Inr [ex_invoice_overpaid, ex_partial_paid]"
    using sync by (simp add: ex_docs5)
  show ?thesis
    unfolding add_payment_accepted [OF ex_get5(2) ty st am p refl ex_partial_paid_eq]
    by (simp add: f sync' ex_docs5 ex_s6_def)
qed

text \<open>
  Claim C10. The payment that the cascade records on the parent invoice is not checked
  against the parent's remaining amount. In the run, the invoice of 1073.98 has received
  1000.00 directly (73.98 remain) when its partial invoice of 200.00 is paid: the cascade
  appends 200.00 to the invoice without an error, the invoice ends with 1200.00 paid, more
  than its gross total, and a negative remaining amount.
\<close>

theorem C10_cascade_overpays_parent:
  "reachable ex_s5 \<and>
   get_document (documents ex_s5) ''acme'' 0 = Inr ex_invoice_part_paid \<and>
   get_document (documents ex_s5) ''acme'' 1 = Inr ex_partial_sent \<and>
   document_type ex_invoice_part_paid = INVOICE \<and> document_type ex_partial_sent = PARTIAL_INVOICE \<and>
   related_document_id ex_partial_sent = Some 0 \<and>
   remaining_amount (totals ex_invoice_part_paid) + 1 / 100 < \<bar>gross (totals ex_partial_sent)\<bar> \<and>
   add_payment ex_s5 ex_env ''acme'' 1 (ex_pay 200) = Inr (ex_s6, ex_partial_paid) \<and>
   status ex_partial_paid = PAID \<and>
   find_by_id (documents ex_s6) 0 = Some ex_invoice_overpaid \<and>
   payments ex_invoice_overpaid = payments ex_invoice_part_paid @ [ex_cascade_payment] \<and>
   amount ex_cascade_payment = \<bar>gross (totals ex_partial_sent)\<bar> \<and>
   gross (totals ex_invoice_overpaid) < paid_amount (totals ex_invoice_overpaid) \<and>
   remaining_amount (totals ex_invoice_overpaid) < 0"
  using ex_reachable5 ex_get5 ex_step6
  by (simp add: ex_docs5 find_by_id_def ex_partial_sent_fields ex_invoice_part_paid_def
        ex_invoice_sent_fields ex_invoice_overpaid_def ex_cascade_payment_def ex_partial_paid_def)


section \<open>The status state machine\<close>



end
